theory Spec2Isabelle
  imports Complex_Main
begin

section \<open>Python values and exceptions\<close>

text \<open>
  The bot is a single Python module, \<^verbatim>\<open>main.py\<close>. Every exception the modelled code
  can raise is a value of \<open>py_error\<close>; a function that can raise returns the
  exception together with the state reached when it was raised, because the
  effects performed before a raise (requests sent, rows written) stay.
\<close>

datatype py_error =
    ValueError
  | TypeError
  | IndexError
  | ZeroDivisionError
  | ClientError
  | CheckViolationError
  | NotNullViolationError
  | ValidationError

text \<open>
  Python's \<^verbatim>\<open>int(x)\<close> on a number truncates toward zero; on an integer it is
  the identity. JSON numbers and Python floats are idealised as reals.
\<close>

definition py_int :: "real \<Rightarrow> int" where
  "py_int x = (if 0 \<le> x then \<lfloor>x\<rfloor> else - \<lfloor>- x\<rfloor>)"

text \<open>
  Strings are byte strings (UTF-8). \<^verbatim>\<open>s.split(sep)\<close> for a one-character
  separator: never empty, \<^verbatim>\<open>''.split('_') == ['']\<close>.
\<close>

fun split_on :: "char \<Rightarrow> string \<Rightarrow> string list" where
  "split_on sep [] = [[]]"
| "split_on sep (c # cs) =
     (if c = sep then [] # split_on sep cs
      else (case split_on sep cs of [] \<Rightarrow> [[c]] | p # ps \<Rightarrow> (c # p) # ps))"

text \<open>
  \<^verbatim>\<open>xs[i]\<close>: a negative index counts from the end, an index out of range raises.
\<close>

definition py_getitem :: "'a list \<Rightarrow> int \<Rightarrow> py_error + 'a" where
  "py_getitem xs i =
     (let n = int (length xs); j = (if i < 0 then i + n else i)
      in if 0 \<le> j \<and> j < n then Inr (xs ! nat j) else Inl IndexError)"

text \<open>
  \<^verbatim>\<open>xs[start:stop]\<close>: the bounds are clipped, nothing raises.
\<close>

definition py_slice :: "'a list \<Rightarrow> int \<Rightarrow> int \<Rightarrow> 'a list" where
  "py_slice xs start stop =
     (let n = int (length xs);
          a = (if start < 0 then max 0 (start + n) else min start n);
          b = (if stop < 0 then max 0 (stop + n) else min stop n)
      in take (nat (b - a)) (drop (nat a) xs))"

text \<open>
  \<^verbatim>\<open>sub in s\<close> on strings.
\<close>

fun contains :: "string \<Rightarrow> string \<Rightarrow> bool" where
  "contains sub [] = (sub = [])"
| "contains sub (c # cs) = (take (length sub) (c # cs) = sub \<or> contains sub cs)"

text \<open>
  \<^verbatim>\<open>s.startswith(p)\<close>, the filter of the callback handlers.
\<close>

definition startswith :: "string \<Rightarrow> string \<Rightarrow> bool" where
  "startswith s p = (take (length p) s = p)"

text \<open>
  \<^verbatim>\<open>str(i)\<close> for an integer, as the f-strings of the callback tokens use it.
\<close>

fun str_of_nat :: "nat \<Rightarrow> string" where
  "str_of_nat n =
     (if n < 10 then [''0123456789'' ! n]
      else str_of_nat (n div 10) @ [''0123456789'' ! (n mod 10)])"

definition str_of_int :: "int \<Rightarrow> string" where
  "str_of_int i = (if i < 0 then CHR ''-'' # str_of_nat (nat (- i)) else str_of_nat (nat i))"

text \<open>
  Parsing numbers. Only ASCII is modelled: the white space \<^verbatim>\<open>strip\<close> removes and
  the digits \<^verbatim>\<open>0\<close> to \<^verbatim>\<open>9\<close>. A digit part is a run of digits, single
  underscores allowed between two digits.
\<close>

definition is_space :: "char \<Rightarrow> bool" where
  "is_space c =
     (c \<in> set [CHR 0x09, CHR 0x0A, CHR 0x0B, CHR 0x0C, CHR 0x0D,
               CHR 0x1C, CHR 0x1D, CHR 0x1E, CHR 0x1F, CHR 0x20])"

definition strip :: "string \<Rightarrow> string" where
  "strip s = rev (dropWhile is_space (rev (dropWhile is_space s)))"

definition is_digit :: "char \<Rightarrow> bool" where
  "is_digit c = (c \<in> set ''0123456789'')"

definition digit_value :: "char \<Rightarrow> nat" where
  "digit_value c = of_char c - 48"

definition nat_of_digits :: "string \<Rightarrow> nat" where
  "nat_of_digits ds = foldl (\<lambda>n c. 10 * n + digit_value c) 0 ds"

fun digitpart :: "string \<Rightarrow> string option" where
  "digitpart [] = None"
| "digitpart [c] = (if is_digit c then Some [c] else None)"
| "digitpart (c # d # cs) =
     (if \<not> is_digit c then None
      else if d = CHR ''_'' then map_option ((#) c) (digitpart cs)
      else map_option ((#) c) (digitpart (d # cs)))"

text \<open>
  \<^verbatim>\<open>int(s)\<close> on a string: white space stripped, an optional sign, a digit part;
  anything else raises \<^verbatim>\<open>ValueError\<close>.
\<close>

definition int_of_str :: "string \<Rightarrow> py_error + int" where
  "int_of_str s =
     (let t = strip s;
          negative = (case t of [] \<Rightarrow> False | c # cs \<Rightarrow> c = CHR ''-'');
          body = (case t of [] \<Rightarrow> [] | c # cs \<Rightarrow> if c = CHR ''-'' \<or> c = CHR ''+'' then cs else t)
      in case digitpart body of
           None \<Rightarrow> Inl ValueError
         | Some ds \<Rightarrow> Inr (if negative then - int (nat_of_digits ds) else int (nat_of_digits ds)))"

text \<open>
  \<^verbatim>\<open>float(s)\<close> on a string. A Python float is idealised as a real (no rounding,
  no overflow); \<^verbatim>\<open>inf\<close> and \<^verbatim>\<open>nan\<close>, which \<^verbatim>\<open>float\<close> accepts in any letter
  case and with a sign, are the value \<open>Non_finite\<close>.
\<close>

datatype py_float = Finite real | Non_finite

definition lower_char :: "char \<Rightarrow> char" where
  "lower_char c =
     (case map_of (zip ''ABCDEFGHIJKLMNOPQRSTUVWXYZ'' ''abcdefghijklmnopqrstuvwxyz'') c of
        None \<Rightarrow> c
      | Some d \<Rightarrow> d)"

definition split_at :: "(char \<Rightarrow> bool) \<Rightarrow> string \<Rightarrow> string \<times> string option" where
  "split_at P s =
     (case dropWhile (\<lambda>c. \<not> P c) s of
        [] \<Rightarrow> (s, None)
      | c # rest \<Rightarrow> (takeWhile (\<lambda>c. \<not> P c) s, Some rest))"

definition decimal :: "string \<Rightarrow> real option" where
  "decimal m =
     (case split_at (\<lambda>c. c = CHR ''.'') m of
        (ip, None) \<Rightarrow> map_option (\<lambda>ds. real (nat_of_digits ds)) (digitpart ip)
      | (ip, Some fp) \<Rightarrow>
          (if ip = [] \<and> fp = [] then None
           else
             (case (if ip = [] then Some [] else digitpart ip,
                    if fp = [] then Some [] else digitpart fp) of
                (Some ids, Some fds) \<Rightarrow>
                  Some (real (nat_of_digits (ids @ fds)) / 10 ^ length fds)
              | _ \<Rightarrow> None)))"

definition exponent_value :: "string \<Rightarrow> int option" where
  "exponent_value e =
     (case e of
        [] \<Rightarrow> None
      | c # cs \<Rightarrow>
          if c = CHR ''-'' then map_option (\<lambda>ds. - int (nat_of_digits ds)) (digitpart cs)
          else if c = CHR ''+'' then map_option (\<lambda>ds. int (nat_of_digits ds)) (digitpart cs)
          else map_option (\<lambda>ds. int (nat_of_digits ds)) (digitpart e))"

definition float_of_str :: "string \<Rightarrow> py_error + py_float" where
  "float_of_str s =
     (let t = strip s;
          negative = (case t of [] \<Rightarrow> False | c # cs \<Rightarrow> c = CHR ''-'');
          body = (case t of [] \<Rightarrow> [] | c # cs \<Rightarrow> if c = CHR ''-'' \<or> c = CHR ''+'' then cs else t)
      in if map lower_char body \<in> set [''inf'', ''infinity'', ''nan''] then Inr Non_finite
         else
           (case split_at (\<lambda>c. c = CHR ''e'' \<or> c = CHR ''E'') body of
              (mantissa, exponent) \<Rightarrow>
                (case (decimal mantissa,
                       case exponent of None \<Rightarrow> Some 0 | Some e \<Rightarrow> exponent_value e) of
                   (Some m, Some k) \<Rightarrow>
                     Inr (Finite ((if negative then - m else m) *
                                  (if 0 \<le> k then 10 ^ nat k else 1 / 10 ^ nat (- k))))
                 | _ \<Rightarrow> Inl ValueError)))"

section \<open>The store and the outside world\<close>

text \<open>
  One row of \<^verbatim>\<open>users\<close>, with the columns the code reads and writes.
\<close>

record user =
  user_id :: int
  telegram_id :: int
  api_key :: string
  polling_frequency :: int
  notification_threshold :: real

text \<open>
  One element of the JSON list the coefficients endpoint returns, with the keys
  \<^verbatim>\<open>check_coefficients_for_user\<close> and \<^verbatim>\<open>notify_user\<close> read.
\<close>

record metric =
  warehouseName :: string
  coefficient :: real
  boxTypeName :: string
  date :: string

text \<open>
  The answer of the upstream service to one GET: a status with the decoded JSON
  body, or a transport failure (aiohttp raises a \<^verbatim>\<open>ClientError\<close>).
\<close>

datatype http_result =
    Response nat "metric list"
  | Transport_failure

text \<open>
  The upstream service: what it answers to the request number \<open>n\<close> (counting the
  requests sent so far) with the given key and warehouse ids.
\<close>

type_synonym upstream = "nat \<Rightarrow> string \<Rightarrow> int list \<Rightarrow> http_result"

text \<open>
  What \<^verbatim>\<open>get_coefficients\<close> returns: the JSON list on status 200, the dictionary
  \<^verbatim>\<open>{"error": status}\<close> otherwise.
\<close>

datatype fetched =
    Data "metric list"
  | ErrorDict nat

text \<open>
  An inline keyboard: rows of buttons, each with its text and callback token.
\<close>

record button =
  button_text :: string
  callback_data :: string

type_synonym keyboard = "button list list"

text \<open>
  What the bot sends to a chat. The texts themselves are user interface copy;
  a notification is kept by the list it reports (the text gives its length and
  one line per element), a callback answer by the warehouse it names.
\<close>

datatype message =
    Notification "metric list"
  | Threshold_updated
  | Enter_number_0_to_20
  | Frequency_updated
  | Main_menu
  | Warehouse_removed int
  | Warehouse_added int
  | Reply_markup keyboard
  | Setup_finished

text \<open>
  The conversation state of one user: \<open>Idle\<close> is aiogram's \<^verbatim>\<open>None\<close> (after
  \<^verbatim>\<open>state.clear()\<close>), the others are \<^verbatim>\<open>RegistrationStates\<close>.
\<close>

datatype fsm_state =
    Idle
  | entering_api_key
  | choosing_warehouses
  | editing_warehouses
  | editing_notification_threshold
  | editing_polling_frequency
  | editing_api_key

text \<open>
  One element of the JSON list the warehouses endpoint returns.
  \<^verbatim>\<open>warehouse.get('name')\<close> is \<^verbatim>\<open>None\<close> when the key is missing.
\<close>

record directory_entry =
  ID :: int
  name :: "string option"

text \<open>
  The store (\<^verbatim>\<open>users\<close>, \<^verbatim>\<open>warehouses\<close>, \<^verbatim>\<open>user_warehouses\<close>) and the two
  effects on the outside: the coefficient requests sent (key and warehouse ids)
  and the messages sent (chat and message). A row of \<^verbatim>\<open>warehouses\<close> is
  (warehouse id, name, last updated); a row of \<^verbatim>\<open>user_warehouses\<close> is
  (user id, warehouse id).
\<close>

record world =
  users :: "user list"
  warehouses :: "(int \<times> string \<times> nat) list"
  user_warehouses :: "(int \<times> int) list"
  requests :: "(string \<times> int list) list"
  outbox :: "(int \<times> message) list"

section \<open>The polling scheduler\<close>

text \<open>
  \<^verbatim>\<open>get_coefficients\<close>: one GET; a status other than 200 is not raised but
  returned as \<^verbatim>\<open>{"error": status}\<close>.
\<close>

definition get_coefficients ::
  "upstream \<Rightarrow> string \<Rightarrow> int list \<Rightarrow> world \<Rightarrow> (py_error + fetched) \<times> world" where
  "get_coefficients up key ids w =
     (let w1 = w\<lparr>requests := requests w @ [(key, ids)]\<rparr> in
      case up (length (requests w)) key ids of
        Transport_failure \<Rightarrow> (Inl ClientError, w1)
      | Response status body \<Rightarrow>
          (Inr (if status = 200 then Data body else ErrorDict status), w1))"

text \<open>
  The test of \<^verbatim>\<open>check_coefficients_for_user\<close>:
  \<^verbatim>\<open>-1 < int(coefficient['coefficient']) <= threshold\<close>.
\<close>

definition qualifies :: "real \<Rightarrow> metric \<Rightarrow> bool" where
  "qualifies threshold c =
     (-1 < py_int (coefficient c) \<and> real_of_int (py_int (coefficient c)) \<le> threshold)"

text \<open>
  The loop that fills \<^verbatim>\<open>good_coefficients\<close> by \<^verbatim>\<open>append\<close>.
\<close>

fun collect_good :: "real \<Rightarrow> metric list \<Rightarrow> metric list \<Rightarrow> metric list" where
  "collect_good threshold [] good = good"
| "collect_good threshold (c # cs) good =
     (if qualifies threshold c then collect_good threshold cs (good @ [c])
      else collect_good threshold cs good)"

text \<open>
  \<^verbatim>\<open>notify_user\<close>: looks the chat up and sends one message, whatever the length
  of the list. When no row has the user id the chat is \<^verbatim>\<open>None\<close>, which
  \<^verbatim>\<open>send_message\<close> refuses.
\<close>

definition notify_user :: "int \<Rightarrow> metric list \<Rightarrow> world \<Rightarrow> py_error option \<times> world" where
  "notify_user uid cs w =
     (case find (\<lambda>u. user_id u = uid) (users w) of
        None \<Rightarrow> (Some ValidationError, w)
      | Some u \<Rightarrow> (None, w\<lparr>outbox := outbox w @ [(telegram_id u, Notification cs)]\<rparr>))"

text \<open>
  \<^verbatim>\<open>check_coefficients_for_user\<close>. Iterating over the dictionary
  \<^verbatim>\<open>{"error": status}\<close> yields its key, the string \<^verbatim>\<open>"error"\<close>, and indexing a
  string with \<^verbatim>\<open>'coefficient'\<close> raises \<^verbatim>\<open>TypeError\<close>.
\<close>

definition check_coefficients_for_user ::
  "upstream \<Rightarrow> int \<Rightarrow> string \<Rightarrow> real \<Rightarrow> world \<Rightarrow> py_error option \<times> world" where
  "check_coefficients_for_user up uid key threshold w =
     (let rows = filter (\<lambda>r. fst r = uid) (user_warehouses w) in
      if rows = [] then (None, w)
      else
        (case get_coefficients up key (map snd rows) w of
           (Inl e, w1) \<Rightarrow> (Some e, w1)
         | (Inr (ErrorDict status), w1) \<Rightarrow> (Some TypeError, w1)
         | (Inr (Data coefficients), w1) \<Rightarrow>
             notify_user uid (collect_good threshold coefficients []) w1))"

text \<open>
  The test \<^verbatim>\<open>loop_num % user['polling_frequency'] == 0\<close>. Python's \<^verbatim>\<open>%\<close>
  raises \<^verbatim>\<open>ZeroDivisionError\<close> on a zero divisor and is the floored remainder
  otherwise, as \<open>mod\<close> on \<open>int\<close>.
\<close>

definition due :: "nat \<Rightarrow> user \<Rightarrow> py_error + bool" where
  "due loop_num u =
     (if polling_frequency u = 0 then Inl ZeroDivisionError
      else Inr (int loop_num mod polling_frequency u = 0))"

text \<open>
  The \<^verbatim>\<open>for user in users\<close> loop of one tick of \<^verbatim>\<open>start_polling\<close>. Nothing in
  the loop catches an exception, so the first one ends it. The result also lists
  the users whose check was called, in order.
\<close>

fun poll_users ::
  "upstream \<Rightarrow> nat \<Rightarrow> user list \<Rightarrow> world \<Rightarrow> py_error option \<times> int list \<times> world" where
  "poll_users up loop_num [] w = (None, [], w)"
| "poll_users up loop_num (u # us) w =
     (case due loop_num u of
        Inl e \<Rightarrow> (Some e, [], w)
      | Inr False \<Rightarrow> poll_users up loop_num us w
      | Inr True \<Rightarrow>
          (case check_coefficients_for_user up (user_id u) (api_key u)
                  (notification_threshold u) w of
             (Some e, w1) \<Rightarrow> (Some e, [user_id u], w1)
           | (None, w1) \<Rightarrow>
               (case poll_users up loop_num us w1 of
                  (r, checked, w2) \<Rightarrow> (r, user_id u # checked, w2))))"

text \<open>
  \<^verbatim>\<open>start_polling\<close>: \<^verbatim>\<open>while True\<close>, one tick per iteration, \<^verbatim>\<open>loop_num\<close>
  counting from 0. The loop has no exit; it ends only when a tick raises. The
  model runs at most \<open>fuel\<close> ticks: \<open>None\<close> says that the loop is still running
  after them, \<open>Some e\<close> that it has ended with the exception \<open>e\<close>.
\<close>

fun polling_loop :: "upstream \<Rightarrow> nat \<Rightarrow> nat \<Rightarrow> world \<Rightarrow> py_error option \<times> world" where
  "polling_loop up 0 loop_num w = (None, w)"
| "polling_loop up (Suc fuel) loop_num w =
     (case poll_users up loop_num (users w) w of
        (Some e, checked, w1) \<Rightarrow> (Some e, w1)
      | (None, checked, w1) \<Rightarrow> polling_loop up fuel (Suc loop_num) w1)"

definition start_polling :: "upstream \<Rightarrow> nat \<Rightarrow> world \<Rightarrow> py_error option \<times> world" where
  "start_polling up fuel w = polling_loop up fuel 0 w"

section \<open>Refreshing the catalog\<close>

text \<open>
  The exclusion marker of \<^verbatim>\<open>update_warehouses_in_db\<close>: the two Cyrillic
  letters Es and Tse, in UTF-8.
\<close>

definition SC :: string where
  "SC = [CHR 0xD0, CHR 0xA1, CHR 0xD0, CHR 0xA6]"

text \<open>
  \<^verbatim>\<open>INSERT ... ON CONFLICT (warehouse_id) DO UPDATE SET name, last_updated\<close>.
\<close>

definition upsert ::
  "int \<Rightarrow> string \<Rightarrow> nat \<Rightarrow> (int \<times> string \<times> nat) list \<Rightarrow> (int \<times> string \<times> nat) list" where
  "upsert warehouse_id nm now rows =
     (if warehouse_id \<in> fst ` set rows
      then map (\<lambda>r. if fst r = warehouse_id then (warehouse_id, nm, now) else r) rows
      else rows @ [(warehouse_id, nm, now)])"

text \<open>
  \<^verbatim>\<open>update_warehouses_in_db\<close>: one statement per entry, each its own
  transaction, so the rows written before an exception stay. \<^verbatim>\<open>"..." not in
  None\<close> raises \<^verbatim>\<open>TypeError\<close>. \<open>now\<close> is the store's clock.
\<close>

fun update_warehouses_in_db ::
  "nat \<Rightarrow> directory_entry list \<Rightarrow> world \<Rightarrow> py_error option \<times> world" where
  "update_warehouses_in_db now [] w = (None, w)"
| "update_warehouses_in_db now (warehouse # data) w =
     (case name warehouse of
        None \<Rightarrow> (Some TypeError, w)
      | Some nm \<Rightarrow>
          if \<not> contains SC nm
          then update_warehouses_in_db now data
                 (w\<lparr>warehouses := upsert (ID warehouse) nm now (warehouses w)\<rparr>)
          else update_warehouses_in_db now data w)"

text \<open>
  A history of the catalog: refreshes one after the other, each with its time and
  the list upstream returned. Nothing else in the module writes to
  \<^verbatim>\<open>warehouses\<close>.
\<close>

fun refreshes :: "(nat \<times> directory_entry list) list \<Rightarrow> world \<Rightarrow> world" where
  "refreshes [] w = w"
| "refreshes (r # rs) w = refreshes rs (snd (update_warehouses_in_db (fst r) (snd r) w))"

section \<open>The warehouse keyboard\<close>

definition WAREHOUSES_PER_PAGE :: int where
  "WAREHOUSES_PER_PAGE = 6"

text \<open>
  The texts of the buttons that are not plain ASCII, in UTF-8: the check mark
  with its space, and the label of the save button.
\<close>

definition CHECK_MARK :: string where
  "CHECK_MARK = [CHR 0xE2, CHR 0x9C, CHR 0x85, CHR 0x20]"

definition SAVE :: string where
  "SAVE = [CHR 0xD0, CHR 0xA1, CHR 0xD0, CHR 0xBE, CHR 0xD1, CHR 0x85, CHR 0xD1, CHR 0x80,
           CHR 0xD0, CHR 0xB0, CHR 0xD0, CHR 0xBD, CHR 0xD0, CHR 0xB8, CHR 0xD1, CHR 0x82,
           CHR 0xD1, CHR 0x8C]"

text \<open>
  The button of one warehouse on a page.
\<close>

definition warehouse_button :: "int list \<Rightarrow> int \<Rightarrow> int \<times> string \<times> nat \<Rightarrow> button" where
  "warehouse_button selected_ids page warehouse =
     \<lparr>button_text =
        (if fst warehouse \<in> set selected_ids then CHECK_MARK @ fst (snd warehouse)
         else fst (snd warehouse)),
      callback_data =
        ''select_'' @ str_of_int (fst warehouse) @ ''_page_'' @ str_of_int page\<rparr>"

text \<open>
  The loop over \<^verbatim>\<open>enumerate(paginated_warehouses)\<close>: the button is appended to
  \<^verbatim>\<open>buttons\<close>; at an odd index the two buttons become a row of the builder
  and \<^verbatim>\<open>buttons\<close> is cleared. The result is what \<^verbatim>\<open>buttons\<close> holds after the
  loop, and the rows.
\<close>

fun selection_rows ::
  "int list \<Rightarrow> int \<Rightarrow> nat \<Rightarrow> (int \<times> string \<times> nat) list \<Rightarrow> button list \<Rightarrow> keyboard
   \<Rightarrow> button list \<times> keyboard" where
  "selection_rows selected_ids page index [] buttons rows = (buttons, rows)"
| "selection_rows selected_ids page index (warehouse # rest) buttons rows =
     (let buttons1 = buttons @ [warehouse_button selected_ids page warehouse]
      in if index mod 2 = 1
         then selection_rows selected_ids page (Suc index) rest [] (rows @ [buttons1])
         else selection_rows selected_ids page (Suc index) rest buttons1 rows)"

definition navigation_row :: "int \<Rightarrow> int \<Rightarrow> nat \<Rightarrow> button list" where
  "navigation_row page end_index n_rows =
     (if page > 0
      then [\<lparr>button_text = ''<<'', callback_data = ''page_'' @ str_of_int (page - 1)\<rparr>]
      else []) @
     [\<lparr>button_text = SAVE, callback_data = ''done''\<rparr>] @
     (if end_index < int n_rows
      then [\<lparr>button_text = ''>>'', callback_data = ''page_'' @ str_of_int (page + 1)\<rparr>]
      else [])"

text \<open>
  \<^verbatim>\<open>generate_warehouse_keyboard\<close>, on the rows of \<^verbatim>\<open>warehouses\<close> that
  \<^verbatim>\<open>get_available_warehouses\<close> read. What \<^verbatim>\<open>buttons\<close> holds after the loop is
  not used again.
\<close>

definition generate_warehouse_keyboard ::
  "(int \<times> string \<times> nat) list \<Rightarrow> int list \<Rightarrow> int \<Rightarrow> keyboard" where
  "generate_warehouse_keyboard rows selected_ids page =
     (let start_index = page * WAREHOUSES_PER_PAGE;
          end_index = start_index + WAREHOUSES_PER_PAGE;
          paginated_warehouses = py_slice rows start_index end_index
      in snd (selection_rows selected_ids page 0 paginated_warehouses [] []) @
         [navigation_row page end_index (length rows)])"

section \<open>The conversation handlers\<close>

text \<open>
  The subquery \<^verbatim>\<open>SELECT user_id FROM users WHERE telegram_id = $1\<close>.
\<close>

definition user_id_of :: "int \<Rightarrow> world \<Rightarrow> int option" where
  "user_id_of tg w = map_option user_id (find (\<lambda>u. telegram_id u = tg) (users w))"

text \<open>
  Modelled from the spec: the table \<^verbatim>\<open>user_warehouses\<close> is declared in
  \<^verbatim>\<open>database.sql\<close>, which is not among the sources. The specification counts
  an unknown user among the constraint violations of the store: the insert with
  the user id \<^verbatim>\<open>NULL\<close>, which the subquery gives for an unknown chat, raises.
\<close>

definition insert_user_warehouse ::
  "int \<Rightarrow> int option \<Rightarrow> (int \<times> int) list \<Rightarrow> py_error + (int \<times> int) list" where
  "insert_user_warehouse warehouse_id uid rows =
     (case uid of
        None \<Rightarrow> Inl NotNullViolationError
      | Some i \<Rightarrow> Inr (rows @ [(i, warehouse_id)]))"

text \<open>
  The body of \<^verbatim>\<open>warehouse_selected\<close> after the token is parsed: the user's rows
  are read; a warehouse among them is deleted, another one inserted; the answer
  to the callback is sent before the statement runs; at the end the keyboard of
  the page is sent again.
\<close>

definition toggle_warehouse :: "int \<Rightarrow> int \<Rightarrow> int \<Rightarrow> world \<Rightarrow> py_error option \<times> world" where
  "toggle_warehouse tg warehouse_id page w =
     (let uid = user_id_of tg w;
          selected_ids =
            (case uid of
               None \<Rightarrow> []
             | Some i \<Rightarrow> map snd (filter (\<lambda>r. fst r = i) (user_warehouses w)))
      in if warehouse_id \<in> set selected_ids then
           (let w1 = w\<lparr>outbox := outbox w @ [(tg, Warehouse_removed warehouse_id)]\<rparr>;
                w2 = w1\<lparr>user_warehouses :=
                          filter (\<lambda>r. \<not> (Some (fst r) = uid \<and> snd r = warehouse_id))
                            (user_warehouses w1)\<rparr>
            in (None,
                w2\<lparr>outbox := outbox w2 @
                     [(tg, Reply_markup (generate_warehouse_keyboard (warehouses w2)
                                            (remove1 warehouse_id selected_ids) page))]\<rparr>))
         else
           (let w1 = w\<lparr>outbox := outbox w @ [(tg, Warehouse_added warehouse_id)]\<rparr>
            in case insert_user_warehouse warehouse_id uid (user_warehouses w1) of
                 Inl e \<Rightarrow> (Some e, w1)
               | Inr rows \<Rightarrow>
                   (let w2 = w1\<lparr>user_warehouses := rows\<rparr>
                    in (None,
                        w2\<lparr>outbox := outbox w2 @
                             [(tg, Reply_markup (generate_warehouse_keyboard (warehouses w2)
                                                    (selected_ids @ [warehouse_id]) page))]\<rparr>))))"

text \<open>
  \<^verbatim>\<open>warehouse_selected\<close>: the warehouse id is field 1 and the page field 3 of the
  token split at underscores.
\<close>

definition warehouse_selected :: "int \<Rightarrow> string \<Rightarrow> world \<Rightarrow> py_error option \<times> world" where
  "warehouse_selected tg data w =
     (case py_getitem (split_on CHR ''_'' data) 1 of
        Inl e \<Rightarrow> (Some e, w)
      | Inr f1 \<Rightarrow>
          (case int_of_str f1 of
             Inl e \<Rightarrow> (Some e, w)
           | Inr warehouse_id \<Rightarrow>
               (case py_getitem (split_on CHR ''_'' data) 3 of
                  Inl e \<Rightarrow> (Some e, w)
                | Inr f3 \<Rightarrow>
                    (case int_of_str f3 of
                       Inl e \<Rightarrow> (Some e, w)
                     | Inr page \<Rightarrow> toggle_warehouse tg warehouse_id page w))))"




text \<open>
  \<^verbatim>\<open>process_new_notification_threshold\<close>, registered for every message in the
  state \<^verbatim>\<open>editing_notification_threshold\<close>. \<^verbatim>\<open>message.text\<close> is \<^verbatim>\<open>None\<close> for a
  message without text, and \<^verbatim>\<open>float(None)\<close> raises \<^verbatim>\<open>TypeError\<close>, which the
  \<^verbatim>\<open>except\<close> clause does not catch. \<^verbatim>\<open>ValueError\<close> and
  \<^verbatim>\<open>CheckViolationError\<close> are caught and answered by the prompt. No branch
  calls \<^verbatim>\<open>state.set_state\<close> or \<^verbatim>\<open>state.clear\<close>: the conversation state is
  returned as it came.

  \<^verbatim>\<open>database.sql\<close> is not among the sources: the range the table accepts in
  \<^verbatim>\<open>notification_threshold\<close> is the parameter \<open>threshold_check\<close>; a range
  check refuses \<^verbatim>\<open>inf\<close> and \<^verbatim>\<open>nan\<close>. An update that matches no row checks
  nothing and writes nothing.
\<close>

definition process_new_notification_threshold ::
  "(real \<Rightarrow> bool) \<Rightarrow> int \<Rightarrow> string option \<Rightarrow> fsm_state \<Rightarrow> world
   \<Rightarrow> py_error option \<times> fsm_state \<times> world" where
  "process_new_notification_threshold threshold_check tg txt state w =
     (let registered = (\<exists>u \<in> set (users w). telegram_id u = tg);
          prompt = (None, state, w\<lparr>outbox := outbox w @ [(tg, Enter_number_0_to_20)]\<rparr>)
      in case txt of
           None \<Rightarrow> (Some TypeError, state, w)
         | Some s \<Rightarrow>
             (case float_of_str s of
                Inl e \<Rightarrow> prompt
              | Inr Non_finite \<Rightarrow>
                  if registered then prompt
                  else (None, state,
                        w\<lparr>outbox := outbox w @ [(tg, Threshold_updated), (tg, Main_menu)]\<rparr>)
              | Inr (Finite new_threshold) \<Rightarrow>
                  if registered \<and> \<not> threshold_check new_threshold then prompt
                  else
                    (None, state,
                     w\<lparr>users :=
                         map (\<lambda>u. if telegram_id u = tg
                                  then u\<lparr>notification_threshold := new_threshold\<rparr> else u)
                           (users w),
                       outbox := outbox w @ [(tg, Threshold_updated), (tg, Main_menu)]\<rparr>)))"

text \<open>
  Modelled from the spec: the domain range of the threshold, 0 to 20, as the
  constraint of the table; the handler's prompt names the same range.
\<close>

definition threshold_0_to_20 :: "real \<Rightarrow> bool" where
  "threshold_0_to_20 x = (0 \<le> x \<and> x \<le> 20)"

text \<open>
  \<^verbatim>\<open>finish_warehouse_selection\<close>, the handler of the token \<^verbatim>\<open>done\<close>: the one
  handler that calls \<^verbatim>\<open>state.clear()\<close> before it shows the main menu.
\<close>

definition finish_warehouse_selection :: "int \<Rightarrow> fsm_state \<Rightarrow> world \<Rightarrow> fsm_state \<times> world" where
  "finish_warehouse_selection tg state w =
     (Idle, w\<lparr>outbox := outbox w @ [(tg, Setup_finished), (tg, Main_menu)]\<rparr>)"

section \<open>Reference values\<close>

text \<open>
  The rows a keyboard shows, two buttons each: how a list is cut into full rows of
  two, a last single element left out. The properties of the keyboard are stated
  with it.
\<close>

fun pairs :: "'a list \<Rightarrow> 'a list list" where
  "pairs (x # y # zs) = [x, y] # pairs zs"
| "pairs zs = []"

text \<open>
  A string of decimal digits, as \<^verbatim>\<open>str\<close> writes a natural number: not empty,
  and no white space, sign or underscore in it.
\<close>

definition digits :: "string \<Rightarrow> bool" where
  "digits s =
     (s \<noteq> [] \<and>
      (\<forall>c \<in> set s. is_digit c \<and> \<not> is_space c \<and> c \<noteq> CHR ''_'' \<and> c \<noteq> CHR ''-''
                    \<and> c \<noteq> CHR ''+''))"

text \<open>
  Concrete inputs for the scenarios: metrics that differ in their value only, two
  registered users subscribed to one warehouse, upstream services, a directory
  listing and catalogs.
\<close>

definition metric_of :: "real \<Rightarrow> metric" where
  "metric_of v =
     \<lparr>warehouseName = ''Kazan'', coefficient = v, boxTypeName = ''Box'', date = ''2024-10-01''\<rparr>"

definition alice :: user where
  "alice =
     \<lparr>user_id = 1, telegram_id = 100, api_key = ''key1'', polling_frequency = 15,
      notification_threshold = 5\<rparr>"

definition bob :: user where
  "bob =
     \<lparr>user_id = 2, telegram_id = 200, api_key = ''key2'', polling_frequency = 5,
      notification_threshold = 5\<rparr>"

definition two_users :: world where
  "two_users =
     \<lparr>users = [alice, bob], warehouses = [(7, ''Kazan'', 0)],
      user_warehouses = [(1, 7), (2, 7)], requests = [], outbox = []\<rparr>"

definition no_subscriptions :: world where
  "no_subscriptions = two_users\<lparr>user_warehouses := []\<rparr>"

definition empty_world :: world where
  "empty_world =
     \<lparr>users = [], warehouses = [], user_warehouses = [], requests = [], outbox = []\<rparr>"

definition upstream_scenario :: upstream where
  "upstream_scenario n key ids = Response 200 (map metric_of [- 1, 0, 5, 6])"

definition upstream_none_good :: upstream where
  "upstream_none_good n key ids = Response 200 [metric_of 6]"

definition upstream_rejects_key1 :: upstream where
  "upstream_rejects_key1 n key ids =
     (if key = ''key1'' then Response 401 [] else Response 200 [metric_of 0])"

definition upstream_unreachable :: upstream where
  "upstream_unreachable n key ids =
     (if n = 0 then Transport_failure else Response 200 [metric_of 0])"

definition upstream_fifth_fails :: upstream where
  "upstream_fifth_fails n key ids =
     (if n = 4 then Response 500 [] else Response 200 [metric_of 0])"

text \<open>
  The world after the ticks 0 to 14 of the two users with that upstream: the
  first user (frequency 15) was checked at tick 0, the second (frequency 5) at
  the ticks 0, 5 and 10.
\<close>

definition after_15_ticks :: world where
  "after_15_ticks =
     two_users
       \<lparr>requests := [(''key1'', [7]), (''key2'', [7]), (''key2'', [7]), (''key2'', [7])],
        outbox := [(100, Notification [metric_of 0]), (200, Notification [metric_of 0]),
                   (200, Notification [metric_of 0]), (200, Notification [metric_of 0])]\<rparr>"

definition directory :: "directory_entry list" where
  "directory =
     [\<lparr>ID = 1, name = Some ''Kazan''\<rparr>,
      \<lparr>ID = 2, name = Some (SC @ '' Moscow'')\<rparr>,
      \<lparr>ID = 3, name = Some (''Tula '' @ SC)\<rparr>,
      \<lparr>ID = 1, name = Some ''Kazan 2''\<rparr>]"

definition three_warehouses :: "(int \<times> string \<times> nat) list" where
  "three_warehouses = [(1, ''A'', 0), (2, ''B'', 0), (3, ''C'', 0)]"

definition seven_warehouses :: "(int \<times> string \<times> nat) list" where
  "seven_warehouses =
     [(1, ''A'', 0), (2, ''B'', 0), (3, ''C'', 0), (4, ''D'', 0), (5, ''E'', 0), (6, ''F'', 0),
      (7, ''G'', 0)]"

section \<open>Evaluating the model\<close>

declare str_of_nat.simps [simp del]

lemmas scenario_defs = two_users_def alice_def bob_def metric_of_def no_subscriptions_def

lemmas check_defs = check_coefficients_for_user_def get_coefficients_def notify_user_def

lemmas parse_defs = py_getitem_def int_of_str_def strip_def is_space_def is_digit_def
  nat_of_digits_def digit_value_def

lemmas float_defs = float_of_str_def strip_def is_space_def is_digit_def nat_of_digits_def
  digit_value_def lower_char_def split_at_def decimal_def exponent_value_def

lemmas keyboard_defs = generate_warehouse_keyboard_def WAREHOUSES_PER_PAGE_def py_slice_def
  navigation_row_def warehouse_button_def str_of_int_def str_of_nat.simps

section \<open>Tokens\<close>

lemma digit_cases: "k < 10 \<Longrightarrow> k \<in> {0, 1, 2, 3, 4, 5, 6, 7, 8, 9 :: nat}"
  by auto

lemma digit_char:
  assumes "k < 10"
  shows "is_digit (''0123456789'' ! k)" and "digit_value (''0123456789'' ! k) = k"
    and "\<not> is_space (''0123456789'' ! k)" and "''0123456789'' ! k \<noteq> CHR ''_''"
    and "''0123456789'' ! k \<noteq> CHR ''-''" and "''0123456789'' ! k \<noteq> CHR ''+''"
  using digit_cases[OF assms] by (auto simp: is_digit_def digit_value_def is_space_def)

lemma digits_str_of_nat: "digits (str_of_nat n)"
proof (induction n rule: str_of_nat.induct)
  case (1 n)
  show ?case
  proof (cases "n < 10")
    case True
    then show ?thesis using digit_char[of n] by (subst str_of_nat.simps) (simp add: digits_def)
  next
    case False
    with 1 have "digits (str_of_nat (n div 10))" by simp
    moreover have "n mod 10 < 10" by simp
    ultimately show ?thesis using False digit_char[of "n mod 10"]
      by (subst str_of_nat.simps) (simp add: digits_def)
  qed
qed

lemma nat_of_digits_snoc: "nat_of_digits (ds @ [c]) = 10 * nat_of_digits ds + digit_value c"
  by (simp add: nat_of_digits_def)

lemma nat_of_digits_str_of_nat: "nat_of_digits (str_of_nat n) = n"
proof (induction n rule: str_of_nat.induct)
  case (1 n)
  show ?case
  proof (cases "n < 10")
    case True
    then show ?thesis using digit_char(2)[of n]
      by (subst str_of_nat.simps) (simp add: nat_of_digits_def)
  next
    case False
    with 1 have "nat_of_digits (str_of_nat (n div 10)) = n div 10"
      by simp
    moreover have "digit_value (''0123456789'' ! (n mod 10)) = n mod 10"
      using digit_char(2)[of "n mod 10"] by simp
    ultimately show ?thesis using False
      by (subst str_of_nat.simps) (simp add: nat_of_digits_snoc)
  qed
qed

lemma digitpart_digits: "digits s \<Longrightarrow> digitpart s = Some s"
proof (induction s rule: digitpart.induct)
  case 1
  then show ?case by (simp add: digits_def)
next
  case (2 c)
  then show ?case by (simp add: digits_def)
next
  case (3 c d cs)
  from 3(3) have "digits (d # cs)" and "is_digit c" and "d \<noteq> CHR ''_''"
    by (simp_all add: digits_def)
  with 3(2) show ?case by simp
qed

lemma strip_id: "s \<noteq> [] \<Longrightarrow> \<not> is_space (hd s) \<Longrightarrow> \<not> is_space (last s) \<Longrightarrow> strip s = s"
proof -
  assume a: "s \<noteq> []" "\<not> is_space (hd s)" "\<not> is_space (last s)"
  then have "dropWhile is_space s = s" by (cases s) simp_all
  moreover from a have "dropWhile is_space (rev s) = rev s"
    by (cases s rule: rev_cases) simp_all
  ultimately show ?thesis by (simp add: strip_def)
qed

lemma digits_ends: "digits s \<Longrightarrow> s \<noteq> [] \<and> \<not> is_space (hd s) \<and> \<not> is_space (last s) \<and> hd s \<noteq> CHR ''-'' \<and> hd s \<noteq> CHR ''+''"
  by (auto simp: digits_def)

lemma int_of_str_digits: "digits s \<Longrightarrow> int_of_str s = Inr (int (nat_of_digits s))"
  using digits_ends[of s] by (cases s) (auto simp: int_of_str_def strip_id digitpart_digits Let_def)

lemma int_of_str_minus_digits: "digits s \<Longrightarrow> int_of_str (CHR ''-'' # s) = Inr (- int (nat_of_digits s))"
proof -
  assume d: "digits s"
  have "\<not> is_space CHR ''-''" by (simp add: is_space_def)
  with digits_ends[OF d] have "strip (CHR ''-'' # s) = CHR ''-'' # s"
    by (intro strip_id) simp_all
  with d show ?thesis by (simp add: int_of_str_def digitpart_digits Let_def)
qed

lemma int_of_str_str_of_int: "int_of_str (str_of_int i) = Inr i"
  using int_of_str_digits[OF digits_str_of_nat, of "nat i"]
    int_of_str_minus_digits[OF digits_str_of_nat, of "nat (- i)"]
  by (simp add: str_of_int_def nat_of_digits_str_of_nat)

lemma no_underscore_str_of_int: "CHR ''_'' \<notin> set (str_of_int i)"
  using digits_str_of_nat[of "nat i"] digits_str_of_nat[of "nat (- i)"]
  by (auto simp: str_of_int_def digits_def)

lemma split_on_no_sep: "sep \<notin> set a \<Longrightarrow> split_on sep a = [a]"
  by (induction a) auto

lemma split_on_append: "sep \<notin> set a \<Longrightarrow> split_on sep (a @ sep # b) = a # split_on sep b"
  by (induction a) auto

lemma split_select_token:
  "split_on CHR ''_'' (''select_'' @ str_of_int i @ ''_page_'' @ str_of_int p) =
     [''select'', str_of_int i, ''page'', str_of_int p]"
proof -
  have "split_on CHR ''_'' (''select_'' @ str_of_int i @ ''_page_'' @ str_of_int p) =
        ''select'' # split_on CHR ''_'' (str_of_int i @ CHR ''_'' # (''page_'' @ str_of_int p))"
    using split_on_append[of "CHR ''_''" "''select''"] by simp
  also have "split_on CHR ''_'' (str_of_int i @ CHR ''_'' # (''page_'' @ str_of_int p)) =
        str_of_int i # split_on CHR ''_'' (''page_'' @ str_of_int p)"
    using no_underscore_str_of_int by (rule split_on_append)
  also have "split_on CHR ''_'' (''page_'' @ str_of_int p) = ''page'' # split_on CHR ''_'' (str_of_int p)"
    using split_on_append[of "CHR ''_''" "''page''" "str_of_int p"] by simp
  also have "split_on CHR ''_'' (str_of_int p) = [str_of_int p]"
    using no_underscore_str_of_int by (rule split_on_no_sep)
  finally show ?thesis .
qed

lemma getitem_1: "py_getitem [a, b, c, d] 1 = Inr b"
  by (simp add: py_getitem_def)

lemma getitem_3: "py_getitem [a, b, c, d] 3 = Inr d"
  by (simp add: py_getitem_def)

lemma warehouse_selected_token:
  "warehouse_selected tg (''select_'' @ str_of_int wid @ ''_page_'' @ str_of_int page) w =
     toggle_warehouse tg wid page w"
  using split_select_token[of wid page]
  by (simp add: warehouse_selected_def getitem_1 getitem_3 int_of_str_str_of_int)

lemma str_of_int_inj: "str_of_int i = str_of_int j \<Longrightarrow> i = j"
proof -
  assume "str_of_int i = str_of_int j"
  then have "int_of_str (str_of_int i) = int_of_str (str_of_int j)" by simp
  then show "i = j" by (simp add: int_of_str_str_of_int)
qed

lemma warehouse_button_inj:
  "callback_data (warehouse_button sel page a) = callback_data (warehouse_button sel' page b)
   \<Longrightarrow> fst a = fst b"
  by (simp add: warehouse_button_def str_of_int_inj)

lemma navigation_row_tokens:
  "b \<in> set (navigation_row page end_index n) \<Longrightarrow>
   callback_data b \<noteq> callback_data (warehouse_button sel page' wh)"
  by (auto simp: navigation_row_def warehouse_button_def split: if_splits)

section \<open>The threshold test\<close>

lemma py_int_gt: "(- 1 < py_int x) = (- 1 < x)"
  unfolding py_int_def by (auto; linarith)

lemma py_int_Ints: "x \<in> \<int> \<Longrightarrow> real_of_int (py_int x) = x"
  unfolding py_int_def by (auto elim!: Ints_cases)

lemma collect_good_filter:
  "collect_good threshold cs good = good @ filter (qualifies threshold) cs"
  by (induction cs arbitrary: good) simp_all

text \<open>
  Claim C1, as the code has it. The test is made on the value truncated toward
  zero: a metric qualifies iff its value is above -1 and the truncated value is at
  most the threshold. On an integer value that is \<open>-1 < v \<le> T\<close>. The loop keeps
  exactly the qualifying metrics, in the order upstream returned them.
\<close>

theorem qualifies_truncated_value:
  "(qualifies T c \<longleftrightarrow> - 1 < coefficient c \<and> real_of_int (py_int (coefficient c)) \<le> T)
   \<and> (coefficient c \<in> \<int> \<longrightarrow> (qualifies T c \<longleftrightarrow> - 1 < coefficient c \<and> coefficient c \<le> T))
   \<and> collect_good T cs [] = filter (qualifies T) cs"
  by (simp add: qualifies_def py_int_gt py_int_Ints collect_good_filter)

text \<open>
  The scenario of the specification: threshold 5 and the values -1, 0, 5, 6 keep
  0 and 5; with threshold 0 the value 0 qualifies.
\<close>

theorem qualifies_truncated_value_witness:
  "coefficient (metric_of 5) \<in> \<int>
   \<and> qualifies 5 (metric_of 5) \<and> \<not> qualifies 5 (metric_of 6)
   \<and> \<not> qualifies 5 (metric_of (- 1)) \<and> qualifies 0 (metric_of 0)
   \<and> collect_good 5 (map metric_of [- 1, 0, 5, 6]) [] = map metric_of [0, 5]"
  using qualifies_truncated_value[of 5 "metric_of 5" "map metric_of [- 1, 0, 5, 6]"]
  by (simp add: metric_of_def qualifies_def py_int_def)

text \<open>
  Claim C1 as stated fails on a value that is not an integer: 5.5 is above the
  threshold 5 and qualifies, because \<^verbatim>\<open>int(5.5)\<close> is 5.
\<close>

theorem qualifies_above_threshold_counterexample:
  "qualifies 5 (metric_of (11 / 2)) \<and> \<not> (coefficient (metric_of (11 / 2)) \<le> 5)"
  by (simp add: qualifies_def metric_of_def py_int_def)

section \<open>One check\<close>

text \<open>
  Claim C9. A user with no row in \<^verbatim>\<open>user_warehouses\<close>: the check returns at
  once; no request is sent, no message is sent, nothing is written.
\<close>

theorem empty_subscriptions_noop:
  "filter (\<lambda>r. fst r = uid) (user_warehouses w) = [] \<Longrightarrow>
   check_coefficients_for_user up uid key threshold w = (None, w)"
  by (simp add: check_coefficients_for_user_def)

theorem empty_subscriptions_noop_witness:
  "filter (\<lambda>r. fst r = 1) (user_warehouses no_subscriptions) = []
   \<and> check_coefficients_for_user upstream_scenario 1 ''key1'' 5 no_subscriptions =
       (None, no_subscriptions)"
  using empty_subscriptions_noop[of 1 no_subscriptions upstream_scenario "''key1''" 5]
  by (simp add: scenario_defs)

text \<open>
  Claim C3, as the code has it. A check that reaches the evaluation (the user has
  subscriptions, upstream answers 200, the user's row is there) sends one request
  and exactly one message: the qualifying metrics in upstream order, whether there
  are any or not.
\<close>

theorem check_notifies_once:
  assumes "filter (\<lambda>r. fst r = uid) (user_warehouses w) \<noteq> []"
    and "up (length (requests w)) key
           (map snd (filter (\<lambda>r. fst r = uid) (user_warehouses w))) = Response 200 cs"
    and "find (\<lambda>u. user_id u = uid) (users w) = Some u"
  shows "check_coefficients_for_user up uid key threshold w =
    (None,
     w\<lparr>requests := requests w @
          [(key, map snd (filter (\<lambda>r. fst r = uid) (user_warehouses w)))],
       outbox := outbox w @
          [(telegram_id u, Notification (filter (qualifies threshold) cs))]\<rparr>)"
  using assms by (simp add: check_defs collect_good_filter)

theorem check_notifies_once_witness:
  "filter (\<lambda>r. fst r = 1) (user_warehouses two_users) \<noteq> []
   \<and> upstream_scenario (length (requests two_users)) ''key1''
        (map snd (filter (\<lambda>r. fst r = 1) (user_warehouses two_users))) =
       Response 200 (map metric_of [- 1, 0, 5, 6])
   \<and> find (\<lambda>u. user_id u = 1) (users two_users) = Some alice
   \<and> check_coefficients_for_user upstream_scenario 1 ''key1'' 5 two_users =
       (None, two_users\<lparr>requests := [(''key1'', [7])],
                        outbox := [(100, Notification (map metric_of [0, 5]))]\<rparr>)"
  using check_notifies_once[of 1 two_users upstream_scenario "''key1''"
      "map metric_of [- 1, 0, 5, 6]" alice 5]
  by (simp add: scenario_defs upstream_scenario_def qualifies_def py_int_def)

text \<open>
  Claim C3 as stated fails when no metric qualifies: the list is empty and the
  message is sent all the same.
\<close>

theorem empty_notification_counterexample:
  "collect_good 5 [metric_of 6] [] = []
   \<and> outbox (snd (check_coefficients_for_user upstream_none_good 1 ''key1'' 5 two_users)) =
       [(100, Notification [])]"
  by (simp add: check_defs scenario_defs upstream_none_good_def qualifies_def py_int_def)

section \<open>One tick and the loop\<close>

lemma poll_users_Cons:
  assumes "poll_users up t (u # us) w = (r, checked, w')"
  shows "(\<exists>e. due t u = Inl e \<and> r = Some e \<and> checked = [] \<and> w' = w)
       \<or> (due t u = Inr False \<and> poll_users up t us w = (r, checked, w'))
       \<or> (due t u = Inr True \<and>
           (\<exists>e. check_coefficients_for_user up (user_id u) (api_key u)
                   (notification_threshold u) w = (Some e, w')
                 \<and> r = Some e \<and> checked = [user_id u]))
       \<or> (due t u = Inr True \<and>
           (\<exists>w1 ch. check_coefficients_for_user up (user_id u) (api_key u)
                   (notification_threshold u) w = (None, w1)
                 \<and> poll_users up t us w1 = (r, ch, w') \<and> checked = user_id u # ch))"
  using assms by (auto split: sum.splits bool.splits prod.splits option.splits)

lemma due_Inr: "due t u = Inr d \<Longrightarrow> d = (int t mod polling_frequency u = 0)"
  by (auto simp: due_def split: if_splits)

lemma poll_users_checked:
  "poll_users up t us w = (None, checked, w') \<Longrightarrow>
   checked = map user_id (filter (\<lambda>u. int t mod polling_frequency u = 0) us)"
proof (induction us arbitrary: w checked)
  case Nil
  then show ?case by simp
next
  case (Cons u us)
  from poll_users_Cons[OF Cons.prems] show ?case
    using Cons.IH by (auto dest: due_Inr)
qed

lemma poll_users_checked_set:
  "poll_users up t us w = (r, checked, w') \<Longrightarrow> set checked \<subseteq> user_id ` set us"
proof (induction us arbitrary: w checked)
  case Nil
  then show ?case by simp
next
  case (Cons u us)
  from poll_users_Cons[OF Cons.prems] show ?case
    using Cons.IH by fastforce
qed

lemma poll_users_distinct:
  "poll_users up t us w = (r, checked, w') \<Longrightarrow> distinct (map user_id us) \<Longrightarrow> distinct checked"
proof (induction us arbitrary: w checked)
  case Nil
  then show ?case by simp
next
  case (Cons u us)
  from poll_users_Cons[OF Cons.prems(1)] show ?case
    using Cons.IH Cons.prems(2) poll_users_checked_set[of up t us] by fastforce
qed



lemma polling_loop_last:
  "polling_loop up (Suc n) t w =
     (case polling_loop up n t w of
        (Some e, w1) \<Rightarrow> (Some e, w1)
      | (None, w1) \<Rightarrow>
          (case poll_users up (t + n) (users w1) w1 of
             (Some e, checked, w2) \<Rightarrow> (Some e, w2)
           | (None, checked, w2) \<Rightarrow> (None, w2)))"
proof (induction n arbitrary: t w)
  case 0
  show ?case by (simp split: prod.splits option.splits)
next
  case (Suc n)
  obtain r ch w1 where p: "poll_users up t (users w) w = (r, ch, w1)"
    by (cases "poll_users up t (users w) w")
  show ?case
  proof (cases r)
    case None
    have l: "polling_loop up (Suc (Suc n)) t w = polling_loop up (Suc n) (Suc t) w1"
      using p None by simp
    have m: "polling_loop up (Suc n) t w = polling_loop up n (Suc t) w1"
      using p None by simp
    show ?thesis
      by (simp only: l m Suc.IH[of "Suc t" w1] add_Suc add_Suc_right)
  next
    case (Some e)
    with p show ?thesis by simp
  qed
qed

lemma poll_users_checked_prefix:
  "\<exists>rest. map user_id (filter (\<lambda>u. due t u = Inr True) us) =
           fst (snd (poll_users up t us w)) @ rest"
proof (induction us arbitrary: w)
  case Nil
  show ?case by simp
next
  case (Cons u us)
  obtain r ch w' where p: "poll_users up t (u # us) w = (r, ch, w')"
    by (cases "poll_users up t (u # us) w")
  from poll_users_Cons[OF p] show ?case
    using Cons.IH p by (elim disjE exE conjE) (simp_all, (metis fst_conv snd_conv)+)
qed

text \<open>
  Claim C4, at a failing input. The test of the loop is the claim's: for a
  frequency that is not zero it is \<open>loop_num mod polling_frequency = 0\<close>
  (frequency 15 is due at tick 30 and not at tick 31), and iteration \<open>n\<close> of
  the loop runs the rows with the counter \<open>n\<close>. But a due user's check is
  called only if no earlier row of the tick has raised: the users checked in
  a tick are a first part of the due users, not all of them. With an upstream
  whose fifth answer is a status 500, the ticks 0 to 14 run; at tick 15 both
  users are due, the check of the first raises \<^verbatim>\<open>TypeError\<close>, and the second
  user, due, is not checked. The same at tick 0 when upstream answers 401 to
  the first key. The exception is the one of claim C2: nothing catches it.
\<close>

theorem due_user_not_checked:
  "due 30 alice = Inr True \<and> due 31 alice = Inr False
   \<and> due 15 alice = Inr True \<and> due 15 bob = Inr True
   \<and> int 15 mod polling_frequency bob = 0
   \<and> start_polling upstream_fifth_fails 15 two_users = (None, after_15_ticks)
   \<and> poll_users upstream_fifth_fails 15 (users after_15_ticks) after_15_ticks =
       (Some TypeError, [1],
        after_15_ticks\<lparr>requests := requests after_15_ticks @ [(''key1'', [7])]\<rparr>)
   \<and> user_id bob \<notin>
       set (fst (snd (poll_users upstream_fifth_fails 15 (users after_15_ticks)
                        after_15_ticks)))
   \<and> start_polling upstream_fifth_fails (Suc 15) two_users =
       (Some TypeError,
        after_15_ticks\<lparr>requests := requests after_15_ticks @ [(''key1'', [7])]\<rparr>)
   \<and> due 0 bob = Inr True
   \<and> user_id bob \<notin>
       set (fst (snd (poll_users upstream_rejects_key1 0 (users two_users) two_users)))
   \<and> polling_loop up (Suc n) t w =
       (case polling_loop up n t w of
          (Some e, w1) \<Rightarrow> (Some e, w1)
        | (None, w1) \<Rightarrow>
            (case poll_users up (t + n) (users w1) w1 of
               (Some e, checked, w2) \<Rightarrow> (Some e, w2)
             | (None, checked, w2) \<Rightarrow> (None, w2)))
   \<and> (\<exists>rest. map user_id (filter (\<lambda>u. due t u = Inr True) us) =
                fst (snd (poll_users up t us w)) @ rest)"
proof -
  have d: "due 30 alice = Inr True" "due 31 alice = Inr False" "due 15 alice = Inr True"
    "due 15 bob = Inr True" "int 15 mod polling_frequency bob = 0" "due 0 bob = Inr True"
    by (simp_all add: due_def scenario_defs)
  have ticks: "start_polling upstream_fifth_fails 15 two_users = (None, after_15_ticks)"
    by (simp add: start_polling_def eval_nat_numeral after_15_ticks_def scenario_defs
        upstream_fifth_fails_def due_def check_defs qualifies_def py_int_def)
  have tick_15:
    "poll_users upstream_fifth_fails 15 (users after_15_ticks) after_15_ticks =
       (Some TypeError, [1],
        after_15_ticks\<lparr>requests := requests after_15_ticks @ [(''key1'', [7])]\<rparr>)"
    by (simp add: after_15_ticks_def scenario_defs upstream_fifth_fails_def due_def check_defs)
  have bob_15: "user_id bob \<notin>
       set (fst (snd (poll_users upstream_fifth_fails 15 (users after_15_ticks)
                        after_15_ticks)))"
    unfolding tick_15 by (simp add: bob_def)
  have loop: "start_polling upstream_fifth_fails (Suc 15) two_users =
       (Some TypeError,
        after_15_ticks\<lparr>requests := requests after_15_ticks @ [(''key1'', [7])]\<rparr>)"
    unfolding start_polling_def polling_loop_last
    using ticks[unfolded start_polling_def] tick_15 by simp
  have bob_0: "user_id bob \<notin>
       set (fst (snd (poll_users upstream_rejects_key1 0 (users two_users) two_users)))"
    by (simp add: scenario_defs upstream_rejects_key1_def due_def check_defs)
  from d ticks tick_15 bob_15 loop bob_0 polling_loop_last[of up n t w]
    poll_users_checked_prefix[of t us up w]
  show ?thesis by (intro conjI) assumption+
qed

text \<open>
  Claim C2, at a failing input. Two users are due at tick 0 and upstream answers
  401 to the key of the first. The check of the first user raises
  \<^verbatim>\<open>TypeError\<close>; the tick ends there, the second user is not checked and no
  request is sent for the second key; the loop ends with the same exception. The
  same happens with \<^verbatim>\<open>ClientError\<close> when the first request fails in transport.
  No message is sent and no row is written.
\<close>

theorem failed_fetch_ends_polling:
  "due 0 alice = Inr True \<and> due 0 bob = Inr True
   \<and> poll_users upstream_rejects_key1 0 (users two_users) two_users =
       (Some TypeError, [1], two_users\<lparr>requests := [(''key1'', [7])]\<rparr>)
   \<and> start_polling upstream_rejects_key1 3 two_users =
       (Some TypeError, two_users\<lparr>requests := [(''key1'', [7])]\<rparr>)
   \<and> poll_users upstream_unreachable 0 (users two_users) two_users =
       (Some ClientError, [1], two_users\<lparr>requests := [(''key1'', [7])]\<rparr>)
   \<and> start_polling upstream_unreachable 3 two_users =
       (Some ClientError, two_users\<lparr>requests := [(''key1'', [7])]\<rparr>)"
  by (simp add: start_polling_def numeral_3_eq_3 scenario_defs upstream_rejects_key1_def
      upstream_unreachable_def due_def check_defs)

section \<open>The catalog\<close>

lemma upsert_set: "set (upsert i nm now rows) \<subseteq> insert (i, nm, now) (set rows)"
  by (auto simp: upsert_def)

lemma update_rows:
  "row \<in> set (warehouses (snd (update_warehouses_in_db now data w))) \<Longrightarrow>
   row \<in> set (warehouses w) \<or>
   (\<exists>e \<in> set data. name e = Some (fst (snd row)) \<and> ID e = fst row
      \<and> \<not> contains SC (fst (snd row)))"
proof (induction data arbitrary: w)
  case Nil
  then show ?case by simp
next
  case (Cons e data)
  show ?case
  proof (cases "name e")
    case None
    with Cons.prems show ?thesis by simp
  next
    case (Some nm)
    show ?thesis
    proof (cases "contains SC nm")
      case True
      with Some Cons.prems
      have "row \<in> set (warehouses (snd (update_warehouses_in_db now data w)))" by simp
      from Cons.IH[OF this] show ?thesis by auto
    next
      case False
      let ?w1 = "w\<lparr>warehouses := upsert (ID e) nm now (warehouses w)\<rparr>"
      from False Some Cons.prems
      have "row \<in> set (warehouses (snd (update_warehouses_in_db now data ?w1)))" by simp
      from Cons.IH[OF this]
      have "row \<in> set (upsert (ID e) nm now (warehouses w)) \<or>
        (\<exists>e \<in> set data. name e = Some (fst (snd row)) \<and> ID e = fst row
           \<and> \<not> contains SC (fst (snd row)))"
        by simp
      then show ?thesis
        using upsert_set[of "ID e" nm now "warehouses w"] False Some by auto
    qed
  qed
qed

lemma update_keeps_marker_out:
  "\<forall>row \<in> set (warehouses w). \<not> contains SC (fst (snd row)) \<Longrightarrow>
   \<forall>row \<in> set (warehouses (snd (update_warehouses_in_db now data w))).
      \<not> contains SC (fst (snd row))"
  using update_rows by blast

lemma refreshes_keep_marker_out:
  "\<forall>row \<in> set (warehouses w). \<not> contains SC (fst (snd row)) \<Longrightarrow>
   \<forall>row \<in> set (warehouses (refreshes rs w)). \<not> contains SC (fst (snd row))"
proof (induction rs arbitrary: w)
  case Nil
  then show ?case by simp
next
  case (Cons r rs)
  from update_keeps_marker_out[OF Cons.prems]
  have "\<forall>row \<in> set (warehouses (snd (update_warehouses_in_db (fst r) (snd r) w))).
          \<not> contains SC (fst (snd row))" .
  from Cons.IH[OF this] show ?case by simp
qed

text \<open>
  Claim C7. A row that is in the catalog after a refresh was there before, or
  comes from an entry of the listing whose name does not contain the marker: no
  entry with the marker is inserted (nor used to rename a row), also when the
  refresh ends in an exception. The catalog starts empty and refreshes are its
  only writers, so after any number of them no row has a name with the marker.
\<close>

theorem refresh_excludes_marker:
  "(\<forall>row \<in> set (warehouses (snd (update_warehouses_in_db now data w))).
      row \<in> set (warehouses w) \<or>
      (\<exists>e \<in> set data. name e = Some (fst (snd row)) \<and> ID e = fst row
         \<and> \<not> contains SC (fst (snd row))))
   \<and> ((\<forall>row \<in> set (warehouses w). \<not> contains SC (fst (snd row))) \<longrightarrow>
        (\<forall>row \<in> set (warehouses (snd (update_warehouses_in_db now data w))).
           \<not> contains SC (fst (snd row))))
   \<and> (warehouses w = [] \<longrightarrow>
        (\<forall>row \<in> set (warehouses (refreshes rs w)). \<not> contains SC (fst (snd row))))"
proof (intro conjI impI)
  show "\<forall>row \<in> set (warehouses (snd (update_warehouses_in_db now data w))).
      row \<in> set (warehouses w) \<or>
      (\<exists>e \<in> set data. name e = Some (fst (snd row)) \<and> ID e = fst row
         \<and> \<not> contains SC (fst (snd row)))"
    using update_rows by blast
next
  assume "\<forall>row \<in> set (warehouses w). \<not> contains SC (fst (snd row))"
  then show "\<forall>row \<in> set (warehouses (snd (update_warehouses_in_db now data w))).
           \<not> contains SC (fst (snd row))"
    by (rule update_keeps_marker_out)
next
  assume "warehouses w = []"
  then have "\<forall>row \<in> set (warehouses w). \<not> contains SC (fst (snd row))" by simp
  then show "\<forall>row \<in> set (warehouses (refreshes rs w)). \<not> contains SC (fst (snd row))"
    by (rule refreshes_keep_marker_out)
qed

text \<open>
  A listing with two names that carry the marker, at the start and at the end:
  neither is inserted, the other warehouse is inserted and then renamed.
\<close>

theorem refresh_excludes_marker_witness:
  "warehouses empty_world = []
   \<and> contains SC (SC @ '' Moscow'') \<and> contains SC (''Tula '' @ SC)
   \<and> warehouses (snd (update_warehouses_in_db 9 directory empty_world)) = [(1, ''Kazan 2'', 9)]
   \<and> warehouses (refreshes [(9, directory), (10, directory)] empty_world) = [(1, ''Kazan 2'', 10)]
   \<and> \<not> contains SC ''Kazan 2''"
  using refresh_excludes_marker[of 9 directory empty_world "[(9, directory), (10, directory)]"]
  by (simp add: directory_def empty_world_def SC_def upsert_def)

section \<open>The keyboard\<close>

lemma selection_rows_even:
  "even index \<Longrightarrow>
   selection_rows sel page index ws [] rows =
     (if even (length ws) then [] else [warehouse_button sel page (last ws)],
      rows @ pairs (map (warehouse_button sel page) ws))"
proof (induction ws arbitrary: index rows rule: induct_list012)
  case 1
  then show ?case by simp
next
  case (2 x)
  then show ?case by (simp add: Let_def even_iff_mod_2_eq_zero)
next
  case (3 x y zs)
  have s: "selection_rows sel page index (x # y # zs) [] rows =
        selection_rows sel page (Suc (Suc index)) zs []
          (rows @ [[warehouse_button sel page x, warehouse_button sel page y]])"
    using 3(3) by (simp add: Let_def even_iff_mod_2_eq_zero mod_Suc)
  from 3(3) have "even (Suc (Suc index))" by simp
  from 3(1)[OF this] s show ?case by simp
qed

lemma concat_pairs: "concat (pairs xs) = take (2 * (length xs div 2)) xs"
  by (induction xs rule: pairs.induct) simp_all

lemma length_pairs: "r \<in> set (pairs xs) \<Longrightarrow> length r = 2"
  by (induction xs rule: pairs.induct) auto

lemma take_odd: "odd (length xs) \<Longrightarrow> take (2 * (length xs div 2)) xs = butlast xs"
proof -
  assume "odd (length xs)"
  then have "2 * (length xs div 2) = length xs - 1"
    by (metis odd_two_times_div_two_nat)
  then show ?thesis by (simp add: butlast_conv_take)
qed

lemma concat_pairs_odd: "odd (length xs) \<Longrightarrow> concat (pairs (map f xs)) = map f (butlast xs)"
  using take_odd[of "map f xs"] by (simp add: concat_pairs map_butlast)

lemma keyboard_rows:
  "generate_warehouse_keyboard rows sel page =
     pairs (map (warehouse_button sel page)
        (py_slice rows (page * WAREHOUSES_PER_PAGE)
           (page * WAREHOUSES_PER_PAGE + WAREHOUSES_PER_PAGE))) @
     [navigation_row page (page * WAREHOUSES_PER_PAGE + WAREHOUSES_PER_PAGE) (length rows)]"
  by (simp add: generate_warehouse_keyboard_def Let_def selection_rows_even)

lemma distinct_py_slice:
  "distinct (map f xs) \<Longrightarrow> distinct (map f (py_slice xs a b))"
  by (simp add: py_slice_def Let_def take_map[symmetric] drop_map[symmetric]
      distinct_take distinct_drop del: take_map drop_map)

lemma last_not_in_butlast:
  "xs \<noteq> [] \<Longrightarrow> distinct (map f xs) \<Longrightarrow> x \<in> set (butlast xs) \<Longrightarrow> f x \<noteq> f (last xs)"
proof -
  assume a: "xs \<noteq> []" "distinct (map f xs)" "x \<in> set (butlast xs)"
  from a(1) have "xs = butlast xs @ [last xs]" by simp
  then have "map f xs = map f (butlast xs) @ [f (last xs)]"
    by (metis list.simps(8,9) map_append)
  with a(2) have "f (last xs) \<notin> set (map f (butlast xs))"
    by (metis distinct_append distinct.simps(2) disjoint_iff list.set_intros(1))
  with a(3) show ?thesis by (metis image_eqI set_map)
qed

lemma last_token_absent:
  assumes "distinct (map fst ws)" and "odd (length ws)"
    and "b \<in> set (map (warehouse_button sel page) (butlast ws))"
  shows "callback_data b \<noteq> callback_data (warehouse_button sel page (last ws))"
proof -
  from assms(2) have ne: "ws \<noteq> []" by auto
  from assms(3) obtain x where x: "x \<in> set (butlast ws)" "b = warehouse_button sel page x"
    by auto
  from last_not_in_butlast[OF ne assms(1) x(1)] have "fst x \<noteq> fst (last ws)" .
  with x(2) show ?thesis using warehouse_button_inj by blast
qed

text \<open>
  Claim C10. On a page whose slice of the catalog has an odd number of
  warehouses, the keyboard is rows of two selection buttons and then the
  navigation row; the selection buttons are those of the warehouses of the page
  but the last, in order. The button of the last warehouse is what \<^verbatim>\<open>buttons\<close>
  holds when the loop ends, and it is in no row: when the warehouse ids of the
  catalog are distinct, no button of the keyboard carries its token.
\<close>

theorem odd_page_drops_last_button:
  assumes "paginated = py_slice rows (page * WAREHOUSES_PER_PAGE)
             (page * WAREHOUSES_PER_PAGE + WAREHOUSES_PER_PAGE)"
    and "odd (length paginated)"
  shows "concat (butlast (generate_warehouse_keyboard rows sel page)) =
           map (warehouse_button sel page) (butlast paginated)
    \<and> last (generate_warehouse_keyboard rows sel page) =
        navigation_row page (page * WAREHOUSES_PER_PAGE + WAREHOUSES_PER_PAGE) (length rows)
    \<and> (\<forall>r \<in> set (butlast (generate_warehouse_keyboard rows sel page)). length r = 2)
    \<and> selection_rows sel page 0 paginated [] [] =
        ([warehouse_button sel page (last paginated)],
         butlast (generate_warehouse_keyboard rows sel page))
    \<and> (distinct (map fst rows) \<longrightarrow>
        (\<forall>r \<in> set (generate_warehouse_keyboard rows sel page). \<forall>b \<in> set r.
           callback_data b \<noteq> callback_data (warehouse_button sel page (last paginated))))"
proof -
  let ?kb = "generate_warehouse_keyboard rows sel page"
  let ?nav = "navigation_row page (page * WAREHOUSES_PER_PAGE + WAREHOUSES_PER_PAGE)
                (length rows)"
  have kb: "?kb = pairs (map (warehouse_button sel page) paginated) @ [?nav]"
    using assms(1) by (simp add: keyboard_rows)
  have absent: "callback_data b \<noteq> callback_data (warehouse_button sel page (last paginated))"
    if d: "distinct (map fst rows)" and r: "r \<in> set ?kb" and b: "b \<in> set r" for r b
  proof (cases "r = ?nav")
    case True
    with b show ?thesis by (simp add: navigation_row_tokens)
  next
    case False
    with r kb have "r \<in> set (pairs (map (warehouse_button sel page) paginated))" by simp
    with b have "b \<in> set (concat (pairs (map (warehouse_button sel page) paginated)))" by auto
    with assms(2) have "b \<in> set (map (warehouse_button sel page) (butlast paginated))"
      by (simp add: concat_pairs_odd)
    moreover from d assms(1) have "distinct (map fst paginated)"
      by (simp add: distinct_py_slice)
    ultimately show ?thesis using assms(2) by (rule last_token_absent[rotated 2])
  qed
  from kb assms(2) have "concat (butlast ?kb) = map (warehouse_button sel page) (butlast paginated)"
    and "last ?kb = ?nav"
    and "\<forall>r \<in> set (butlast ?kb). length r = 2"
    and "selection_rows sel page 0 paginated [] [] =
          ([warehouse_button sel page (last paginated)], butlast ?kb)"
    by (simp_all add: selection_rows_even concat_pairs_odd length_pairs)
  with absent show ?thesis by blast
qed

text \<open>
  Three warehouses on page 0, the second selected: one row with the first two,
  then the save button; the third warehouse has no button. Seven warehouses: page
  1 shows the navigation row only, and the seventh warehouse cannot be selected.
\<close>

theorem odd_page_drops_last_button_witness:
  "three_warehouses = py_slice three_warehouses (0 * WAREHOUSES_PER_PAGE)
       (0 * WAREHOUSES_PER_PAGE + WAREHOUSES_PER_PAGE)
   \<and> odd (length three_warehouses) \<and> distinct (map fst three_warehouses)
   \<and> generate_warehouse_keyboard three_warehouses [2] 0 =
       [[\<lparr>button_text = ''A'', callback_data = ''select_1_page_0''\<rparr>,
         \<lparr>button_text = CHECK_MARK @ ''B'', callback_data = ''select_2_page_0''\<rparr>],
        [\<lparr>button_text = SAVE, callback_data = ''done''\<rparr>]]
   \<and> callback_data (warehouse_button [2] 0 (last three_warehouses)) = ''select_3_page_0''
   \<and> generate_warehouse_keyboard seven_warehouses [] 1 =
       [[\<lparr>button_text = ''<<'', callback_data = ''page_0''\<rparr>,
         \<lparr>button_text = SAVE, callback_data = ''done''\<rparr>]]"
  using odd_page_drops_last_button[of three_warehouses three_warehouses 0 "[2]"]
  by (simp add: keyboard_defs three_warehouses_def seven_warehouses_def Let_def)

section \<open>Toggling a subscription\<close>

lemma toggle_users: "users (snd (toggle_warehouse tg wid page w)) = users w"
  by (simp add: toggle_warehouse_def insert_user_warehouse_def Let_def split: option.splits)

lemma user_id_of_toggle:
  "user_id_of tg (snd (toggle_warehouse tg' wid page w)) = user_id_of tg w"
  by (simp add: user_id_of_def toggle_users)

lemma toggle_rows:
  "user_id_of tg w = Some uid \<Longrightarrow>
   fst (toggle_warehouse tg wid page w) = None \<and>
   user_warehouses (snd (toggle_warehouse tg wid page w)) =
     (if (uid, wid) \<in> set (user_warehouses w)
      then filter (\<lambda>r. r \<noteq> (uid, wid)) (user_warehouses w)
      else user_warehouses w @ [(uid, wid)])"
  by (auto simp: toggle_warehouse_def insert_user_warehouse_def Let_def image_iff prod_eq_iff
      intro!: filter_cong)

lemma toggle_warehouse_twice:
  assumes "user_id_of tg w = Some uid"
  shows "fst (toggle_warehouse tg wid page w) = None
     \<and> fst (toggle_warehouse tg wid page' (snd (toggle_warehouse tg wid page w))) = None
     \<and> ((uid, wid) \<in> set (user_warehouses (snd (toggle_warehouse tg wid page w))) \<longleftrightarrow>
          (uid, wid) \<notin> set (user_warehouses w))
     \<and> set (user_warehouses
            (snd (toggle_warehouse tg wid page' (snd (toggle_warehouse tg wid page w))))) =
        set (user_warehouses w)
     \<and> (filter (\<lambda>r. fst r = uid) (user_warehouses w) = [] \<longrightarrow>
          filter (\<lambda>r. fst r = uid) (user_warehouses (snd (toggle_warehouse tg wid page w))) =
            [(uid, wid)]
          \<and> filter (\<lambda>r. fst r = uid)
              (user_warehouses
                (snd (toggle_warehouse tg wid page' (snd (toggle_warehouse tg wid page w))))) =
            [])"
proof -
  let ?w1 = "snd (toggle_warehouse tg wid page w)"
  have u1: "user_id_of tg ?w1 = Some uid"
    using assms by (simp add: user_id_of_toggle)
  note r1 = toggle_rows[OF assms, of wid page]
  note r2 = toggle_rows[OF u1, of wid page']
  have e: "filter (\<lambda>r. fst r = uid) (user_warehouses w) = [] \<Longrightarrow>
           (uid, wid) \<notin> set (user_warehouses w)"
    by (auto simp: filter_empty_conv)
  show ?thesis using r1 r2 e by (auto simp: filter_empty_conv)
qed

text \<open>
  Claim C8. The toggle is \<^verbatim>\<open>warehouse_selected\<close> on a token of the keyboard,
  \<^verbatim>\<open>select_<warehouse>_page_<page>\<close>, which the filter of the handler lets
  through. For a registered user, one toggle of a
  warehouse flips the membership of the pair (user, warehouse) and a second one
  flips it back: after two toggles the set of subscription rows is what it was,
  whatever the pages the two tokens name. A user with no subscription has exactly
  one row after the first toggle and none after the second.
\<close>

theorem toggle_twice:
  assumes "user_id_of tg w = Some uid"
    and "d = ''select_'' @ str_of_int wid @ ''_page_'' @ str_of_int page"
    and "d' = ''select_'' @ str_of_int wid @ ''_page_'' @ str_of_int page'"
  shows "startswith d ''select_''
     \<and> fst (warehouse_selected tg d w) = None
     \<and> fst (warehouse_selected tg d' (snd (warehouse_selected tg d w))) = None
     \<and> ((uid, wid) \<in> set (user_warehouses (snd (warehouse_selected tg d w))) \<longleftrightarrow>
          (uid, wid) \<notin> set (user_warehouses w))
     \<and> set (user_warehouses (snd (warehouse_selected tg d' (snd (warehouse_selected tg d w))))) =
        set (user_warehouses w)
     \<and> (filter (\<lambda>r. fst r = uid) (user_warehouses w) = [] \<longrightarrow>
          filter (\<lambda>r. fst r = uid) (user_warehouses (snd (warehouse_selected tg d w))) =
            [(uid, wid)]
          \<and> filter (\<lambda>r. fst r = uid)
              (user_warehouses (snd (warehouse_selected tg d' (snd (warehouse_selected tg d w))))) =
            [])"
proof -
  have "startswith d ''select_''"
    unfolding assms(2) by (simp add: startswith_def)
  moreover note toggle_warehouse_twice[OF assms(1), of wid page page']
  ultimately show ?thesis
    unfolding assms(2,3) warehouse_selected_token by blast
qed

text \<open>
  The scenario of the specification: the first user, without subscriptions,
  selects warehouse 7 on page 0 and selects it again.
\<close>

theorem toggle_twice_witness:
  "user_id_of 100 no_subscriptions = Some 1
   \<and> ''select_7_page_0'' = ''select_'' @ str_of_int 7 @ ''_page_'' @ str_of_int 0
   \<and> filter (\<lambda>r. fst r = 1) (user_warehouses no_subscriptions) = []
   \<and> warehouse_selected 100 ''select_7_page_0'' no_subscriptions =
       (None,
        no_subscriptions
          \<lparr>user_warehouses := [(1, 7)],
           outbox :=
             [(100, Warehouse_added 7),
              (100, Reply_markup (generate_warehouse_keyboard [(7, ''Kazan'', 0)] [7] 0))]\<rparr>)
   \<and> warehouse_selected 100 ''select_7_page_0''
        (no_subscriptions
          \<lparr>user_warehouses := [(1, 7)],
           outbox :=
             [(100, Warehouse_added 7),
              (100, Reply_markup (generate_warehouse_keyboard [(7, ''Kazan'', 0)] [7] 0))]\<rparr>) =
       (None,
        no_subscriptions
          \<lparr>user_warehouses := [],
           outbox :=
             [(100, Warehouse_added 7),
              (100, Reply_markup (generate_warehouse_keyboard [(7, ''Kazan'', 0)] [7] 0)),
              (100, Warehouse_removed 7),
              (100, Reply_markup (generate_warehouse_keyboard [(7, ''Kazan'', 0)] [] 0))]\<rparr>)"
proof -
  have u: "user_id_of 100 no_subscriptions = Some 1"
    by (simp add: user_id_of_def scenario_defs)
  have d: "''select_7_page_0'' = ''select_'' @ str_of_int 7 @ ''_page_'' @ str_of_int 0"
    by (simp add: str_of_int_def str_of_nat.simps)
  have e: "filter (\<lambda>r. fst r = 1) (user_warehouses no_subscriptions) = []"
    by (simp add: scenario_defs)
  have s: "warehouse_selected 100 ''select_7_page_0'' w = toggle_warehouse 100 7 0 w" for w
    by (simp add: warehouse_selected_def parse_defs)
  have t1: "toggle_warehouse 100 7 0 no_subscriptions =
       (None,
        no_subscriptions
          \<lparr>user_warehouses := [(1, 7)],
           outbox :=
             [(100, Warehouse_added 7),
              (100, Reply_markup (generate_warehouse_keyboard [(7, ''Kazan'', 0)] [7] 0))]\<rparr>)"
    by (simp add: toggle_warehouse_def insert_user_warehouse_def user_id_of_def scenario_defs
        Let_def)
  have t2: "toggle_warehouse 100 7 0
        (no_subscriptions
          \<lparr>user_warehouses := [(1, 7)],
           outbox :=
             [(100, Warehouse_added 7),
              (100, Reply_markup (generate_warehouse_keyboard [(7, ''Kazan'', 0)] [7] 0))]\<rparr>) =
       (None,
        no_subscriptions
          \<lparr>user_warehouses := [],
           outbox :=
             [(100, Warehouse_added 7),
              (100, Reply_markup (generate_warehouse_keyboard [(7, ''Kazan'', 0)] [7] 0)),
              (100, Warehouse_removed 7),
              (100, Reply_markup (generate_warehouse_keyboard [(7, ''Kazan'', 0)] [] 0))]\<rparr>)"
    by (simp add: toggle_warehouse_def insert_user_warehouse_def user_id_of_def scenario_defs
        Let_def)
  from toggle_twice[OF u d d, folded d]
  have "set (user_warehouses
          (snd (warehouse_selected 100 ''select_7_page_0''
                 (snd (warehouse_selected 100 ''select_7_page_0'' no_subscriptions))))) =
        set (user_warehouses no_subscriptions)"
    by simp
  then show ?thesis
    by (simp add: u e s t1 t2 str_of_int_def str_of_nat.simps)
qed

section \<open>The settings handlers\<close>














text \<open>
  Claim C6, at a failing input. The first user, in the state
  \<^verbatim>\<open>editing_notification_threshold\<close>, sends \<^verbatim>\<open>7.5\<close>: the threshold is written
  once and the main menu is shown, but the conversation state is still
  \<^verbatim>\<open>editing_notification_threshold\<close>, not \<open>Idle\<close>. The handler returns the
  state it was called in on every input; \<^verbatim>\<open>finish_warehouse_selection\<close>, which
  shows the same menu, clears it. On the inputs \<^verbatim>\<open>21\<close> and \<^verbatim>\<open>abc\<close> nothing is
  written and the user is asked again.
\<close>

theorem threshold_handler_keeps_state:
  "process_new_notification_threshold threshold_0_to_20 100 (Some ''7.5'')
       editing_notification_threshold two_users =
     (None, editing_notification_threshold,
      two_users\<lparr>users := [alice\<lparr>notification_threshold := 15 / 2\<rparr>, bob],
                outbox := [(100, Threshold_updated), (100, Main_menu)]\<rparr>)
   \<and> fst (snd (process_new_notification_threshold threshold_check tg txt state w)) = state
   \<and> fst (finish_warehouse_selection tg state w) = Idle
   \<and> process_new_notification_threshold threshold_0_to_20 100 (Some ''21'')
       editing_notification_threshold two_users =
     (None, editing_notification_threshold,
      two_users\<lparr>outbox := [(100, Enter_number_0_to_20)]\<rparr>)
   \<and> process_new_notification_threshold threshold_0_to_20 100 (Some ''abc'')
       editing_notification_threshold two_users =
     (None, editing_notification_threshold,
      two_users\<lparr>outbox := [(100, Enter_number_0_to_20)]\<rparr>)"
proof (intro conjI)
  show "fst (snd (process_new_notification_threshold threshold_check tg txt state w)) = state"
    by (simp add: process_new_notification_threshold_def Let_def
        split: option.splits sum.splits py_float.splits)
  show "fst (finish_warehouse_selection tg state w) = Idle"
    by (simp add: finish_warehouse_selection_def)
qed (simp_all add: process_new_notification_threshold_def float_defs threshold_0_to_20_def
      scenario_defs Let_def)

end
